theory Spec2Isabelle
  imports Main "HOL-Library.AList"
begin

section \<open>Python strings\<close>

text \<open>
  A Python \<open>str\<close> is a sequence of code points. It is modelled as a \<^typ>\<open>string\<close>; a
  \<^typ>\<open>char\<close> stands for one code point below 256, so \<^const>\<open>length\<close> is Python's
  \<open>len\<close>. The string methods the validators and handlers call are written out below
  with what they do on these code points. None of them raises on a \<open>str\<close>.
\<close>

definition char_in_range :: "char \<Rightarrow> char \<Rightarrow> char \<Rightarrow> bool" where
  \<comment> \<open>a range \<open>lo-hi\<close> of a regular-expression character class\<close>
  "char_in_range lo hi c = ((of_char lo :: nat) \<le> of_char c \<and> (of_char c :: nat) \<le> of_char hi)"

definition py_isspace :: "char \<Rightarrow> bool" where
  \<comment> \<open>the code points below 256 that \<open>str.strip()\<close> removes: TAB, LF, VT, FF, CR,
      FS, GS, RS, US, SPACE, NEL (0x85), NBSP (0xA0)\<close>
  "py_isspace c = (let n = (of_char c :: nat) in
     (9 \<le> n \<and> n \<le> 13) \<or> (28 \<le> n \<and> n \<le> 32) \<or> n = 133 \<or> n = 160)"

definition py_strip :: "string \<Rightarrow> string" where
  \<comment> \<open>\<open>s.strip()\<close>\<close>
  "py_strip s = rev (dropWhile py_isspace (rev (dropWhile py_isspace s)))"

definition py_lstrip :: "string \<Rightarrow> string \<Rightarrow> string" where
  \<comment> \<open>\<open>s.lstrip(chars)\<close>: drops every leading character that occurs in \<open>chars\<close>\<close>
  "py_lstrip chars s = dropWhile (\<lambda>c. c \<in> set chars) s"

definition py_lower_char :: "char \<Rightarrow> char" where
  \<comment> \<open>\<open>str.lower()\<close> on one code point below 256: A-Z, and the Latin-1 capitals
      0xC0-0xDE except the multiplication sign 0xD7, move up by 32\<close>
  "py_lower_char c = (let n = (of_char c :: nat) in
     if (65 \<le> n \<and> n \<le> 90) \<or> (192 \<le> n \<and> n \<le> 222 \<and> n \<noteq> 215)
     then char_of (n + 32) else c)"

definition py_lower :: "string \<Rightarrow> string" where
  "py_lower s = map py_lower_char s"

definition startswith :: "string \<Rightarrow> string \<Rightarrow> bool" where
  \<comment> \<open>\<open>s.startswith(p)\<close>\<close>
  "startswith s p = (take (length p) s = p)"

definition endswith :: "string \<Rightarrow> string \<Rightarrow> bool" where
  \<comment> \<open>\<open>s.endswith(e)\<close>\<close>
  "endswith s e = (length e \<le> length s \<and> drop (length s - length e) s = e)"

fun py_in :: "string \<Rightarrow> string \<Rightarrow> bool" where
  \<comment> \<open>\<open>sub in s\<close>: \<open>sub\<close> occurs in \<open>s\<close> as a contiguous substring\<close>
  "py_in sub [] = (sub = [])"
| "py_in sub (c # cs) = (startswith (c # cs) sub \<or> py_in sub cs)"

section \<open>Validators (validators.py)\<close>

subsection \<open>The two regular expressions\<close>

text \<open>
  \<open>re.match(r'^...$', s)\<close> anchors the pattern at the start of \<open>s\<close>. Python's \<open>$\<close>
  (without \<open>re.MULTILINE\<close>) matches at the end of the string and also just before a
  newline that is the last character, so each pattern accepts its body and its body
  followed by one LF.
\<close>

definition dollar :: "(string \<Rightarrow> bool) \<Rightarrow> string \<Rightarrow> bool" where
  "dollar body s = (body s \<or> (s \<noteq> [] \<and> last s = CHR 0x0A \<and> body (butlast s)))"

definition is_hex_char :: "char \<Rightarrow> bool" where
  \<comment> \<open>\<open>[a-fA-F0-9]\<close>\<close>
  "is_hex_char c = (char_in_range CHR ''a'' CHR ''f'' c \<or> char_in_range CHR ''A'' CHR ''F'' c
     \<or> char_in_range CHR ''0'' CHR ''9'' c)"

definition bep20_body :: "string \<Rightarrow> bool" where
  \<comment> \<open>\<open>0x[a-fA-F0-9]{40}\<close>\<close>
  "bep20_body s = (take 2 s = ''0x'' \<and> length (drop 2 s) = 40 \<and> list_all is_hex_char (drop 2 s))"

definition bep20_pattern :: "string \<Rightarrow> bool" where
  \<comment> \<open>\<open>re.match(r'^0x[a-fA-F0-9]{40}$', s)\<close> succeeds\<close>
  "bep20_pattern s = dollar bep20_body s"

definition is_username_char :: "char \<Rightarrow> bool" where
  \<comment> \<open>\<open>[a-zA-Z0-9._]\<close>\<close>
  "is_username_char c = (char_in_range CHR ''a'' CHR ''z'' c \<or> char_in_range CHR ''A'' CHR ''Z'' c
     \<or> char_in_range CHR ''0'' CHR ''9'' c \<or> c = CHR ''.'' \<or> c = CHR ''_'')"

definition username_body :: "string \<Rightarrow> bool" where
  \<comment> \<open>\<open>[a-zA-Z0-9._]+\<close>\<close>
  "username_body s = (s \<noteq> [] \<and> list_all is_username_char s)"

definition username_pattern :: "string \<Rightarrow> bool" where
  \<comment> \<open>\<open>re.match(r'^[a-zA-Z0-9._]+$', s)\<close> succeeds\<close>
  "username_pattern s = dollar username_body s"

subsection \<open>validate\_bep20\_address\<close>

definition invalid_addresses :: "string list" where
  "invalid_addresses =
     [''0x0000000000000000000000000000000000000000'',
      ''0x000000000000000000000000000000000000dead'']"

definition validate_bep20_address :: "string \<Rightarrow> bool \<times> string" where
  "validate_bep20_address address0 =
     (if address0 = [] then (False, ''Address cannot be empty'')
      else
        let address = py_strip address0 in
        if \<not> bep20_pattern address then
          (False, ''Invalid BEP20 address format. Must be 42 characters starting with 0x'')
        else if py_lower address \<in> set invalid_addresses then
          (False, ''Invalid address: Cannot use zero or dead addresses'')
        else (True, ''Valid BEP20 address''))"

subsection \<open>validate\_username\<close>

definition validate_username :: "string \<Rightarrow> bool \<times> string" where
  "validate_username username0 =
     (if username0 = [] then (False, ''Username cannot be empty'')
      else
        let username = py_strip (py_lstrip ''@'' username0) in
        if length username < 3 then
          (False, ''Username must be at least 3 characters long'')
        else if length username > 30 then
          (False, ''Username cannot be longer than 30 characters'')
        else if \<not> username_pattern username then
          (False, ''Username can only contain letters, numbers, underscores, and dots'')
        else if startswith username ''_'' \<or> startswith username ''.'' then
          (False, ''Username cannot start with underscore or dot'')
        else if endswith username ''_'' \<or> endswith username ''.'' then
          (False, ''Username cannot end with underscore or dot'')
        else if py_in ''__'' username \<or> py_in ''..'' username
                \<or> py_in ''._'' username \<or> py_in ''_.'' username then
          (False, ''Username cannot contain consecutive special characters'')
        else (True, ''Valid username''))"

subsection \<open>validate\_screenshot\<close>

definition valid_extensions :: "string list" where
  "valid_extensions = [''.jpg'', ''.jpeg'', ''.png'', ''.gif'', ''.bmp'', ''.webp'']"

definition validate_screenshot :: "int \<Rightarrow> string \<Rightarrow> bool \<times> string" where
  "validate_screenshot file_size file_name =
     (let max_size = 5 * 1024 * 1024 in
      if file_size > max_size then (False, ''File size too large. Maximum 5MB allowed'')
      else if \<not> list_ex (\<lambda>ext. endswith (py_lower file_name) ext) valid_extensions then
        (False, ''Invalid file type. Please send image files only (jpg, png, gif, etc.)'')
      else (True, ''Valid screenshot''))"

section \<open>Configuration (config.py)\<close>

datatype py_error = DuplicateKeyError | KeyError | TypeError | AttributeError

definition SOCIAL_LINKS :: "(string \<times> string) list" where
  "SOCIAL_LINKS =
     [(''twitter'', ''https://x.com/minatifi?t=wD6ywZfQ1fRdAvHW7x2Txw&s=08''),
      (''instagram'', ''https://www.instagram.com/minativerse_edtech?igsh=MXE4cWx5ZjZydzUxZg==    ''),
      (''telegram'', ''https://t.me/mntchkk''),
      (''app_download'', ''https://play.google.com/store/apps/details?id=com.app.minati_wallet'')]"

definition getitem :: "(string \<times> 'a) list \<Rightarrow> string \<Rightarrow> py_error + 'a" where
  \<comment> \<open>\<open>d[key]\<close> on a dict: a missing key raises \<open>KeyError\<close>\<close>
  "getitem d key = (case map_of d key of None \<Rightarrow> Inl KeyError | Some v \<Rightarrow> Inr v)"

section \<open>The progress store (database.py)\<close>

text \<open>
  A document of the \<open>users\<close> collection. The keys of \<open>steps_completed\<close> are the strings
  \<open>step_n\<close>; the model keeps the number \<open>n\<close>. Both embedded documents are association
  lists in insertion order, as a \<open>$set\<close> on a dotted path leaves them: a key that is present
  keeps its place, a new key goes to the end (\<^const>\<open>AList.update\<close>). Every
  \<open>datetime.now()\<close> of the source is a clock reading passed in by the caller.
\<close>

type_synonym time = nat

record screenshot =
  file_id :: string
  file_name :: string
  uploaded_at :: time

record user_doc =
  doc_id :: int
  username :: string
  first_name :: string
  current_step :: int
  steps_completed :: "(int \<times> bool) list"
  bep20_address :: "string option"
  social_usernames :: "(string \<times> string option) list"
  screenshots :: "screenshot list"
  created_at :: time
  updated_at :: time

type_synonym users = "int \<Rightarrow> user_doc option"

subsection \<open>The collection operations the code calls\<close>

definition find_one :: "users \<Rightarrow> int \<Rightarrow> user_doc option" where
  "find_one coll uid = coll uid"

definition insert_one :: "users \<Rightarrow> user_doc \<Rightarrow> py_error + users" where
  \<comment> \<open>\<open>_id\<close> is the collection's unique key: inserting a second document with an
      \<open>_id\<close> that is present raises \<open>DuplicateKeyError\<close> and stores nothing\<close>
  "insert_one coll d =
     (case coll (doc_id d) of
        Some _ \<Rightarrow> Inl DuplicateKeyError
      | None \<Rightarrow> Inr (coll(doc_id d \<mapsto> d)))"

definition update_one :: "users \<Rightarrow> int \<Rightarrow> (user_doc \<Rightarrow> user_doc) \<Rightarrow> users \<times> nat" where
  \<comment> \<open>\<open>update_one({"_id": uid}, ...)\<close>: the new collection and \<open>modified_count\<close>, which
      counts the matched document only when the update changed it\<close>
  "update_one coll uid upd =
     (case coll uid of
        None \<Rightarrow> (coll, 0)
      | Some d \<Rightarrow> if upd d = d then (coll, 0) else (coll(uid \<mapsto> upd d), 1))"

subsection \<open>class Database\<close>

definition get_user :: "users \<Rightarrow> int \<Rightarrow> user_doc option" where
  "get_user db user_id = find_one db user_id"

definition create_user :: "users \<Rightarrow> int \<Rightarrow> string \<Rightarrow> string \<Rightarrow> time \<Rightarrow> time \<Rightarrow> users \<times> bool" where
  "create_user db user_id uname fname now1 now2 =
     (let user_data = \<lparr>doc_id = user_id, username = uname, first_name = fname,
            current_step = 1, steps_completed = [], bep20_address = None,
            social_usernames = [(''twitter'', None), (''instagram'', None)],
            screenshots = [], created_at = now1, updated_at = now2\<rparr>
      in case insert_one db user_data of
           Inr db' \<Rightarrow> (db', True)
         | Inl e \<Rightarrow> (db, False))"

definition update_user_step :: "users \<Rightarrow> int \<Rightarrow> int \<Rightarrow> bool \<Rightarrow> time \<Rightarrow> users \<times> bool" where
  "update_user_step db user_id step completed now =
     (case update_one db user_id
             (\<lambda>d. d\<lparr>current_step := (if completed then step + 1 else step),
                     steps_completed := AList.update step completed (steps_completed d),
                     updated_at := now\<rparr>) of
        (db', modified_count) \<Rightarrow> (db', modified_count > 0))"

definition save_social_username :: "users \<Rightarrow> int \<Rightarrow> string \<Rightarrow> string \<Rightarrow> time \<Rightarrow> users \<times> bool" where
  "save_social_username db user_id platform uname now =
     (case update_one db user_id
             (\<lambda>d. d\<lparr>social_usernames := AList.update platform (Some uname) (social_usernames d),
                     updated_at := now\<rparr>) of
        (db', modified_count) \<Rightarrow> (db', modified_count > 0))"

definition save_bep20_address :: "users \<Rightarrow> int \<Rightarrow> string \<Rightarrow> time \<Rightarrow> users \<times> bool" where
  "save_bep20_address db user_id address now =
     (case update_one db user_id
             (\<lambda>d. d\<lparr>bep20_address := Some address, updated_at := now\<rparr>) of
        (db', modified_count) \<Rightarrow> (db', modified_count > 0))"

definition add_screenshot :: "users \<Rightarrow> int \<Rightarrow> string \<Rightarrow> string \<Rightarrow> time \<Rightarrow> time \<Rightarrow> users \<times> bool" where
  "add_screenshot db user_id fid fname now1 now2 =
     (let screenshot_data = \<lparr>file_id = fid, file_name = fname, uploaded_at = now1\<rparr> in
      case update_one db user_id
             (\<lambda>d. d\<lparr>screenshots := screenshots d @ [screenshot_data], updated_at := now2\<rparr>) of
        (db', modified_count) \<Rightarrow> (db', modified_count > 0))"

section \<open>The step state machine (main.py)\<close>

subsection \<open>The membership query\<close>

text \<open>
  \<open>get_chat_member\<close> is answered by Telegram. Its answer is an input of the model: the
  member's status, or the exception the call raises (\<open>OtherException\<close> stands for every
  exception that is neither \<open>BadRequest\<close> nor \<open>Forbidden\<close>, a network failure among them).
\<close>

datatype chat_member_status = OWNER | ADMINISTRATOR | MEMBER | RESTRICTED | LEFT | BANNED

datatype telegram_error = BadRequest | Forbidden | OtherException

datatype get_chat_member = Status chat_member_status | Raises telegram_error

fun check_channel_membership :: "get_chat_member \<Rightarrow> bool" where
  "check_channel_membership (Status st) =
     (if st \<in> set [MEMBER, ADMINISTRATOR, OWNER] then True else False)"
| "check_channel_membership (Raises BadRequest) = False"
| "check_channel_membership (Raises Forbidden) = False"
| "check_channel_membership (Raises OtherException) = False"

definition verify_social_follow :: "string \<Rightarrow> string \<Rightarrow> bool" where
  "verify_social_follow platform uname = fst (validate_username uname)"

subsection \<open>Replies\<close>

text \<open>
  The message templates belong to the presentation layer; a reply is kept as the name of
  its template and the values the template is filled with. A handler's outcome is the
  collection it leaves, the replies it sent, in order, and the exception that ended it,
  if one did.
\<close>

datatype reply =
    Welcome string | ErrorCreatingProfile | WelcomeBackCompleted string
  | RestartOrStatusPrompt | WelcomeBack string int
  | Congratulations | AllStepsCompleted | StepPrompt int
  | UserNotFound | AppDownloadConfirmed | NotOnStep1
  | VerifyingMembership | MembershipVerified | VerificationFailed | NotOnTelegramStep
  | CompletionMessage | NotOnFinalStep
  | TwitterInstructions | InstagramInstructions | Bep20Instructions
  | ProcessRestarted | ErrorRestarting | StatusText | HelpText
  | PleaseStartFirst
  | SocialVerified string string | ErrorSavingSocial string
  | SocialNotVerified string string | InvalidSocialUsername string string
  | Bep20Saved string | ErrorSavingAddress | InvalidBep20Address string
  | CurrentlyOnStep int
  | ProgressReset | NoUserDataToReset

type_synonym outcome = "users \<times> reply list \<times> py_error option"

definition py_or :: "string option \<Rightarrow> string \<Rightarrow> string" where
  \<comment> \<open>\<open>x or default\<close> for an optional string: \<open>None\<close> and the empty string are false\<close>
  "py_or x dflt = (case x of None \<Rightarrow> dflt | Some s \<Rightarrow> if s = [] then dflt else s)"

definition keyboard_link :: "int \<Rightarrow> string option" where
  \<comment> \<open>the key of \<open>config.SOCIAL_LINKS\<close> that the keyboard of a step reads\<close>
  "keyboard_link step =
     (if step = 1 then Some ''app_download''
      else if step = 2 then Some ''twitter''
      else if step = 3 then Some ''instagram''
      else None)"

definition step_prompt :: "int \<Rightarrow> py_error + reply" where
  \<comment> \<open>the part \<open>show_step\<close> and \<open>show_step_callback\<close> share: the keyboard and the message
      of a step from 1 to 6 (other numbers get the text "Invalid step")\<close>
  "step_prompt step =
     (case keyboard_link step of
        None \<Rightarrow> Inr (StepPrompt step)
      | Some k \<Rightarrow>
          (case getitem SOCIAL_LINKS k of
             Inl e \<Rightarrow> Inl e
           | Inr url \<Rightarrow> Inr (StepPrompt step)))"

definition show_step :: "int \<Rightarrow> py_error + reply" where
  "show_step step = (if step > 6 then Inr Congratulations else step_prompt step)"

definition show_step_callback :: "int \<Rightarrow> py_error + reply" where
  "show_step_callback step = (if step > 6 then Inr AllStepsCompleted else step_prompt step)"

definition then_show :: "users \<Rightarrow> reply list \<Rightarrow> py_error + reply \<Rightarrow> outcome" where
  \<comment> \<open>replies already sent, followed by the step display, which may raise\<close>
  "then_show db sent shown =
     (case shown of Inl e \<Rightarrow> (db, sent, Some e) | Inr r \<Rightarrow> (db, sent @ [r], None))"

subsection \<open>start\<close>

definition start :: "users \<Rightarrow> int \<Rightarrow> string option \<Rightarrow> string option \<Rightarrow> time \<Rightarrow> time \<Rightarrow> outcome" where
  "start db user_id tg_username tg_first_name now1 now2 =
     (let uname = py_or tg_username ''No username'';
          fname = py_or tg_first_name ''User''
      in case get_user db user_id of
           None \<Rightarrow>
             (case create_user db user_id uname fname now1 now2 of
                (db', created) \<Rightarrow>
                  if created then then_show db' [Welcome fname] (show_step 1)
                  else (db', [ErrorCreatingProfile], None))
         | Some existing_user \<Rightarrow>
             (if current_step existing_user > 6 then
                (case getitem SOCIAL_LINKS ''website'' of
                   Inl e \<Rightarrow> (db, [WelcomeBackCompleted fname], Some e)
                 | Inr url \<Rightarrow> (db, [WelcomeBackCompleted fname, RestartOrStatusPrompt], None))
              else then_show db [WelcomeBack fname (current_step existing_user)]
                     (show_step (current_step existing_user))))"

subsection \<open>reset\<close>

definition reset_fields :: "time \<Rightarrow> user_doc \<Rightarrow> user_doc" where
  \<comment> \<open>the \<open>$set\<close> document that \<open>reset_command\<close> and the \<open>restart_process\<close> button both send\<close>
  "reset_fields now d =
     d\<lparr>current_step := 1, steps_completed := [],
       social_usernames := [(''twitter'', None), (''instagram'', None)],
       bep20_address := None, updated_at := now\<rparr>"

definition reset_command :: "users \<Rightarrow> int \<Rightarrow> time \<Rightarrow> outcome" where
  "reset_command db user_id now =
     (case update_one db user_id (reset_fields now) of
        (db', modified_count) \<Rightarrow>
          if modified_count > 0 then (db', [ProgressReset], None)
          else (db', [NoUserDataToReset], None))"

subsection \<open>button\_handler\<close>

definition final_summary :: "user_doc option \<Rightarrow> reply \<Rightarrow> py_error + reply" where
  \<comment> \<open>the f-string of the completion and status messages: \<open>bep20_address[:10]\<close> is read
      first and raises \<open>TypeError\<close> on \<open>None\<close>, \<open>config.SOCIAL_LINKS['website']\<close> after it\<close>
  "final_summary user_data r =
     (case user_data of
        None \<Rightarrow> Inl AttributeError
      | Some d \<Rightarrow>
          (case bep20_address d of
             None \<Rightarrow> Inl TypeError
           | Some a \<Rightarrow>
               (case getitem SOCIAL_LINKS ''website'' of
                  Inl e \<Rightarrow> Inl e
                | Inr url \<Rightarrow> Inr r)))"

definition button_handler :: "users \<Rightarrow> int \<Rightarrow> string \<Rightarrow> get_chat_member \<Rightarrow> time \<Rightarrow> outcome" where
  "button_handler db user_id data member now =
     (case get_user db user_id of
        None \<Rightarrow> (db, [UserNotFound], None)
      | Some user_data \<Rightarrow>
          if data = ''verify_step_1'' then
            (if current_step user_data = 1 then
               then_show (fst (update_user_step db user_id 1 True now))
                 [AppDownloadConfirmed] (show_step_callback 2)
             else (db, [NotOnStep1], None))
          else if data = ''verify_telegram'' then
            (if current_step user_data = 4 then
               (let is_member = check_channel_membership member in
                if is_member then
                  then_show (fst (update_user_step db user_id 4 True now))
                    [VerifyingMembership, MembershipVerified] (show_step_callback 5)
                else
                  then_show db [VerifyingMembership, VerificationFailed] (show_step_callback 4))
             else (db, [NotOnTelegramStep], None))
          else if data = ''complete_process'' then
            (if current_step user_data = 6 then
               (let db' = fst (update_user_step db user_id 6 True now) in
                then_show db' [] (final_summary (get_user db' user_id) CompletionMessage))
             else (db, [NotOnFinalStep], None))
          else if data = ''twitter_info'' then (db, [TwitterInstructions], None)
          else if data = ''instagram_info'' then (db, [InstagramInstructions], None)
          else if data = ''bep20_info'' then (db, [Bep20Instructions], None)
          else if data = ''restart_process'' then
            (let db' = fst (update_one db user_id (reset_fields now)) in
             case show_step_callback 1 of
               Inl e \<Rightarrow> (db', [ProcessRestarted, ErrorRestarting], None)
             | Inr r \<Rightarrow> (db', [ProcessRestarted, r], None))
          else if data = ''show_status'' then
            then_show db [] (final_summary (Some user_data) StatusText)
          else if data = ''help'' then
            (case getitem SOCIAL_LINKS ''website'' of
               Inl e \<Rightarrow> (db, [], Some e)
             | Inr url \<Rightarrow> (db, [HelpText], None))
          else (db, [], None))"

subsection \<open>handle\_message\<close>

definition handle_social :: "users \<Rightarrow> int \<Rightarrow> string \<Rightarrow> int \<Rightarrow> string \<Rightarrow> time \<Rightarrow> time \<Rightarrow> outcome" where
  \<comment> \<open>the branches for step 2 (\<open>twitter\<close>) and step 3 (\<open>instagram\<close>), which differ in the
      platform and the step number only\<close>
  "handle_social db user_id platform step message_text now1 now2 =
     (let uname = py_strip (py_lstrip ''@'' message_text) in
      case validate_username uname of
        (is_valid, validation_message) \<Rightarrow>
          if is_valid then
            (let is_follower = verify_social_follow platform uname in
             if is_follower then
               (case save_social_username db user_id platform uname now1 of
                  (db1, saved) \<Rightarrow>
                    if saved then
                      then_show (fst (update_user_step db1 user_id step True now2))
                        [SocialVerified platform uname] (show_step (step + 1))
                    else (db1, [ErrorSavingSocial platform], None))
             else (db, [SocialNotVerified platform uname], None))
          else (db, [InvalidSocialUsername platform validation_message], None))"

definition handle_message :: "users \<Rightarrow> int \<Rightarrow> string \<Rightarrow> time \<Rightarrow> time \<Rightarrow> outcome" where
  "handle_message db user_id text0 now1 now2 =
     (let message_text = py_strip text0 in
      case get_user db user_id of
        None \<Rightarrow> (db, [PleaseStartFirst], None)
      | Some user_data \<Rightarrow>
          if current_step user_data = 2 then
            handle_social db user_id ''twitter'' 2 message_text now1 now2
          else if current_step user_data = 3 then
            handle_social db user_id ''instagram'' 3 message_text now1 now2
          else if current_step user_data = 5 then
            (case validate_bep20_address message_text of
               (is_valid, message) \<Rightarrow>
                 if is_valid then
                   (case save_bep20_address db user_id message_text now1 of
                      (db1, saved) \<Rightarrow>
                        if saved then
                          then_show (fst (update_user_step db1 user_id 5 True now2))
                            [Bep20Saved message_text] (show_step 6)
                        else (db1, [ErrorSavingAddress], None))
                 else (db, [InvalidBep20Address message], None))
          else (db, [CurrentlyOnStep (current_step user_data)], None))"

subsection \<open>Reachable collections\<close>

text \<open>
  The collections the bot can hold: it starts empty, and every update runs one of the
  four handlers that write to it, for any user, payload, membership answer and clock.
\<close>

inductive reachable :: "users \<Rightarrow> bool" where
  reach_empty: "reachable (\<lambda>uid. None)"
| reach_start: "reachable db \<Longrightarrow> reachable (fst (start db uid tg_uname tg_fname now1 now2))"
| reach_button: "reachable db \<Longrightarrow> reachable (fst (button_handler db uid data member now))"
| reach_message: "reachable db \<Longrightarrow> reachable (fst (handle_message db uid txt now1 now2))"
| reach_reset: "reachable db \<Longrightarrow> reachable (fst (reset_command db uid now))"

section \<open>The validators on Python values\<close>

text \<open>
  Python checks no type annotation: each operation of a validator looks at the object it
  gets and raises when the object does not support it. This second reading of
  \<open>validators.py\<close> keeps that: arguments and intermediate results are Python objects, and
  every operation the validators use returns its result or the exception Python raises.
  \<open>PyMatch\<close> is the match object of a successful \<open>re.match\<close>.
\<close>

datatype py_val = PyNone | PyBool bool | PyInt int | PyStr string | PyMatch

fun truthy :: "py_val \<Rightarrow> bool" where
  \<comment> \<open>what \<open>not x\<close> and \<open>if x\<close> test; it never raises\<close>
  "truthy PyNone = False"
| "truthy (PyBool b) = b"
| "truthy (PyInt i) = (i \<noteq> 0)"
| "truthy (PyStr s) = (s \<noteq> [])"
| "truthy PyMatch = True"

definition py_bind :: "py_error + 'a \<Rightarrow> ('a \<Rightarrow> py_error + 'b) \<Rightarrow> py_error + 'b" where
  \<comment> \<open>evaluate, and go on with the result unless an exception was raised\<close>
  "py_bind x f = (case x of Inl e \<Rightarrow> Inl e | Inr v \<Rightarrow> f v)"

definition or_else :: "py_error + bool \<Rightarrow> py_error + bool \<Rightarrow> py_error + bool" where
  \<comment> \<open>\<open>a or b\<close> on two tests: \<open>b\<close> is evaluated only when \<open>a\<close> is false\<close>
  "or_else a b = py_bind a (\<lambda>x. if x then Inr True else b)"

fun meth_strip :: "py_val \<Rightarrow> py_error + py_val" where
  \<comment> \<open>\<open>x.strip()\<close>: only a \<open>str\<close> has the method\<close>
  "meth_strip (PyStr s) = Inr (PyStr (py_strip s))"
| "meth_strip _ = Inl AttributeError"

fun meth_lstrip :: "string \<Rightarrow> py_val \<Rightarrow> py_error + py_val" where
  "meth_lstrip chars (PyStr s) = Inr (PyStr (py_lstrip chars s))"
| "meth_lstrip chars _ = Inl AttributeError"

fun meth_lower :: "py_val \<Rightarrow> py_error + py_val" where
  "meth_lower (PyStr s) = Inr (PyStr (py_lower s))"
| "meth_lower _ = Inl AttributeError"

fun meth_startswith :: "string \<Rightarrow> py_val \<Rightarrow> py_error + bool" where
  "meth_startswith p (PyStr s) = Inr (startswith s p)"
| "meth_startswith p _ = Inl AttributeError"

fun meth_endswith :: "string \<Rightarrow> py_val \<Rightarrow> py_error + bool" where
  "meth_endswith e (PyStr s) = Inr (endswith s e)"
| "meth_endswith e _ = Inl AttributeError"

fun py_len :: "py_val \<Rightarrow> py_error + int" where
  \<comment> \<open>\<open>len(x)\<close>: \<open>None\<close>, a number and a match object have no length\<close>
  "py_len (PyStr s) = Inr (int (length s))"
| "py_len _ = Inl TypeError"

fun re_match :: "(string \<Rightarrow> bool) \<Rightarrow> py_val \<Rightarrow> py_error + py_val" where
  \<comment> \<open>\<open>re.match(pattern, x)\<close>: a match object or \<open>None\<close>; \<open>x\<close> must be a string\<close>
  "re_match pattern (PyStr s) = Inr (if pattern s then PyMatch else PyNone)"
| "re_match pattern _ = Inl TypeError"

fun contains :: "string \<Rightarrow> py_val \<Rightarrow> py_error + bool" where
  \<comment> \<open>\<open>sub in x\<close> for a string \<open>sub\<close>: \<open>x\<close> must be a string to be searched\<close>
  "contains sub (PyStr s) = Inr (py_in sub s)"
| "contains sub _ = Inl TypeError"

fun in_list :: "py_val \<Rightarrow> string list \<Rightarrow> bool" where
  \<comment> \<open>\<open>x in l\<close> for a list of strings: equality with each element, which never raises\<close>
  "in_list (PyStr s) l = (s \<in> set l)"
| "in_list _ l = False"

fun py_gt :: "py_val \<Rightarrow> int \<Rightarrow> py_error + bool" where
  \<comment> \<open>\<open>x > n\<close> for an integer \<open>n\<close>: a \<open>bool\<close> counts as 0 or 1, \<open>None\<close> and a string
      are not ordered against an integer\<close>
  "py_gt (PyInt i) n = Inr (i > n)"
| "py_gt (PyBool b) n = Inr ((if b then 1 else 0) > n)"
| "py_gt _ n = Inl TypeError"

definition validate_bep20_address_dyn :: "py_val \<Rightarrow> py_error + bool \<times> string" where
  "validate_bep20_address_dyn address0 =
     (if \<not> truthy address0 then Inr (False, ''Address cannot be empty'')
      else
        py_bind (meth_strip address0) (\<lambda>address.
        py_bind (re_match bep20_pattern address) (\<lambda>m.
          if \<not> truthy m then
            Inr (False, ''Invalid BEP20 address format. Must be 42 characters starting with 0x'')
          else
            py_bind (meth_lower address) (\<lambda>lowered.
              if in_list lowered invalid_addresses then
                Inr (False, ''Invalid address: Cannot use zero or dead addresses'')
              else Inr (True, ''Valid BEP20 address'')))))"

definition validate_username_dyn :: "py_val \<Rightarrow> py_error + bool \<times> string" where
  "validate_username_dyn username0 =
     (if \<not> truthy username0 then Inr (False, ''Username cannot be empty'')
      else
        py_bind (meth_lstrip ''@'' username0) (\<lambda>unprefixed.
        py_bind (meth_strip unprefixed) (\<lambda>uname.
        py_bind (py_len uname) (\<lambda>n.
          if n < 3 then Inr (False, ''Username must be at least 3 characters long'')
          else
            py_bind (py_len uname) (\<lambda>n.
              if n > 30 then Inr (False, ''Username cannot be longer than 30 characters'')
              else
                py_bind (re_match username_pattern uname) (\<lambda>m.
                  if \<not> truthy m then
                    Inr (False, ''Username can only contain letters, numbers, underscores, and dots'')
                  else
                    py_bind (or_else (meth_startswith ''_'' uname) (meth_startswith ''.'' uname))
                      (\<lambda>bad_start.
                        if bad_start then
                          Inr (False, ''Username cannot start with underscore or dot'')
                        else
                          py_bind (or_else (meth_endswith ''_'' uname) (meth_endswith ''.'' uname))
                            (\<lambda>bad_end.
                              if bad_end then
                                Inr (False, ''Username cannot end with underscore or dot'')
                              else
                                py_bind
                                  (or_else (contains ''__'' uname)
                                    (or_else (contains ''..'' uname)
                                      (or_else (contains ''._'' uname) (contains ''_.'' uname))))
                                  (\<lambda>consecutive.
                                    if consecutive then
                                      Inr (False, ''Username cannot contain consecutive special characters'')
                                    else Inr (True, ''Valid username''))))))))))"

fun any_endswith :: "py_val \<Rightarrow> string list \<Rightarrow> py_error + bool" where
  \<comment> \<open>\<open>any(file_name.lower().endswith(ext) for ext in exts)\<close>: one \<open>lower\<close> and one
      \<open>endswith\<close> per extension, until one holds\<close>
  "any_endswith fname [] = Inr False"
| "any_endswith fname (ext # exts) =
     py_bind (meth_lower fname) (\<lambda>lowered.
     py_bind (meth_endswith ext lowered) (\<lambda>hit.
       if hit then Inr True else any_endswith fname exts))"

definition validate_screenshot_dyn :: "py_val \<Rightarrow> py_val \<Rightarrow> py_error + bool \<times> string" where
  "validate_screenshot_dyn fsize fname =
     (let max_size = 5 * 1024 * 1024 in
      py_bind (py_gt fsize max_size) (\<lambda>too_large.
        if too_large then Inr (False, ''File size too large. Maximum 5MB allowed'')
        else
          py_bind (any_endswith fname valid_extensions) (\<lambda>known.
            if \<not> known then
              Inr (False, ''Invalid file type. Please send image files only (jpg, png, gif, etc.)'')
            else Inr (True, ''Valid screenshot''))))"

section \<open>The validators as the specification words them\<close>

text \<open>
  Two definitions that follow the specification's sentences, not the code, for
  comparison with \<^const>\<open>validate_username\<close> and \<^const>\<open>validate_bep20_address\<close>.
  \<open>spec_validateHandle\<close> strips a single leading \<open>@\<close> and the surrounding whitespace,
  then reports the first rule that fails, \<open>None\<close> when the handle passes.
  \<open>spec_validateAddress_accepts\<close> holds when the string is exactly \<open>0x\<close> followed by 40
  hexadecimal characters and its lowercasing is neither blocked address.
\<close>

datatype reason =
  EmptyInput | TooShort | TooLong | InvalidCharacters | BoundaryCharacter | ConsecutiveSpecial

definition spec_strip_handle :: "string \<Rightarrow> string" where
  "spec_strip_handle h =
     py_strip (case h of [] \<Rightarrow> [] | c # cs \<Rightarrow> if c = CHR ''@'' then cs else h)"

definition spec_validateHandle :: "string \<Rightarrow> reason option" where
  "spec_validateHandle h =
     (let s = spec_strip_handle h in
      if s = [] then Some EmptyInput
      else if length s < 3 then Some TooShort
      else if length s > 30 then Some TooLong
      else if \<not> list_all is_username_char s then Some InvalidCharacters
      else if hd s = CHR ''_'' \<or> hd s = CHR ''.'' \<or> last s = CHR ''_'' \<or> last s = CHR ''.''
        then Some BoundaryCharacter
      else if py_in ''__'' s \<or> py_in ''..'' s \<or> py_in ''._'' s \<or> py_in ''_.'' s
        then Some ConsecutiveSpecial
      else None)"

definition spec_validateAddress_accepts :: "string \<Rightarrow> bool" where
  "spec_validateAddress_accepts a = (bep20_body a \<and> py_lower a \<notin> set invalid_addresses)"

definition username_alphabet :: string where
  "username_alphabet = ''abcdefghijklmnopqrstuvwxyzABCDEFGHIJKLMNOPQRSTUVWXYZ0123456789._''"

definition hex_digits :: string where
  "hex_digits = ''0123456789abcdefABCDEF''"

section \<open>Step order\<close>

text \<open>
  A record keeps step order when every step it marks completed lies below its
  \<open>current_step\<close>; a collection does when each of its records does.
\<close>

definition steps_in_order :: "user_doc \<Rightarrow> bool" where
  "steps_in_order d =
     (\<forall>n. map_of (steps_completed d) n = Some True \<longrightarrow> n + 1 \<le> current_step d)"

definition all_in_order :: "users \<Rightarrow> bool" where
  "all_in_order db = (\<forall>uid d. db uid = Some d \<longrightarrow> steps_in_order d)"

section \<open>A sample session\<close>

text \<open>
  The collection after each of the first updates of one user, number 7: \<open>/start\<close>, the
  button of step 1, the Twitter handle \<open>john_crypto\<close>, the Instagram handle
  \<open>john.crypto\<close>, the button of step 4 as a channel member, a wallet address. The
  theorems below are instantiated on these collections.
\<close>

definition run1 :: users where
  "run1 = fst (start (\<lambda>uid. None) 7 (Some ''john'') (Some ''John'') 10 11)"

definition run2 :: users where
  "run2 = fst (button_handler run1 7 ''verify_step_1'' (Status LEFT) 20)"

definition run3 :: users where
  "run3 = fst (handle_message run2 7 ''john_crypto'' 30 31)"

definition run4 :: users where
  "run4 = fst (handle_message run3 7 ''john.crypto'' 40 41)"

definition run5 :: users where
  "run5 = fst (button_handler run4 7 ''verify_telegram'' (Status MEMBER) 50)"

definition run6 :: users where
  "run6 = fst (handle_message run5 7 ''0x742d35Cc6634C0532925a3b8D4B29E3f5fCffd52'' 60 61)"

section \<open>Facts about the string operations\<close>

lemma py_strip_last: "py_strip s \<noteq> [] \<Longrightarrow> \<not> py_isspace (last (py_strip s))"
  unfolding py_strip_def by (simp add: last_rev hd_dropWhile)

lemma lf_isspace: "py_isspace (CHR 0x0A)"
  by (simp add: py_isspace_def)

lemma dollar_strip: "dollar body (py_strip s) = body (py_strip s)"
  using py_strip_last [of s] lf_isspace by (auto simp: dollar_def)

lemma startswith_iff: "startswith s p \<longleftrightarrow> (\<exists>q. s = p @ q)"
proof
  assume "startswith s p"
  then have "s = p @ drop (length p) s"
    unfolding startswith_def by (metis append_take_drop_id)
  then show "\<exists>q. s = p @ q" ..
next
  assume "\<exists>q. s = p @ q"
  then show "startswith s p" by (auto simp: startswith_def)
qed

lemma endswith_iff: "endswith s e \<longleftrightarrow> (\<exists>p. s = p @ e)"
proof
  assume "endswith s e"
  then have "s = take (length s - length e) s @ e"
    unfolding endswith_def by (metis append_take_drop_id)
  then show "\<exists>p. s = p @ e" ..
next
  assume "\<exists>p. s = p @ e"
  then show "endswith s e" by (auto simp: endswith_def)
qed

lemma startswith_single: "startswith s [c] \<longleftrightarrow> s \<noteq> [] \<and> hd s = c"
  by (cases s) (auto simp: startswith_def)

lemma endswith_single: "endswith s [c] \<longleftrightarrow> s \<noteq> [] \<and> last s = c"
  by (cases s rule: rev_cases) (auto simp: endswith_def)

lemma py_in_iff: "py_in sub s \<longleftrightarrow> (\<exists>p q. s = p @ sub @ q)"
proof (induction s)
  case Nil
  show ?case by simp
next
  case (Cons c cs)
  have "(\<exists>p q. c # cs = p @ sub @ q) \<longleftrightarrow> (\<exists>q. c # cs = sub @ q) \<or> (\<exists>p q. cs = p @ sub @ q)"
  proof
    assume "\<exists>p q. c # cs = p @ sub @ q"
    then obtain p q where pq: "c # cs = p @ sub @ q" by blast
    show "(\<exists>q. c # cs = sub @ q) \<or> (\<exists>p q. cs = p @ sub @ q)"
    proof (cases p)
      case Nil
      with pq show ?thesis by auto
    next
      case (Cons x p')
      with pq have "cs = p' @ sub @ q" by simp
      then show ?thesis by blast
    qed
  next
    assume "(\<exists>q. c # cs = sub @ q) \<or> (\<exists>p q. cs = p @ sub @ q)"
    then show "\<exists>p q. c # cs = p @ sub @ q"
    proof
      assume "\<exists>q. c # cs = sub @ q"
      then obtain q where "c # cs = [] @ sub @ q" by auto
      then show ?thesis by blast
    next
      assume "\<exists>p q. cs = p @ sub @ q"
      then obtain p q where "c # cs = (c # p) @ sub @ q" by auto
      then show ?thesis by blast
    qed
  qed
  with Cons show ?case by (simp add: startswith_iff)
qed

text \<open>The character classes of the two patterns, as the characters they contain.\<close>

lemma is_hex_char_iff: "is_hex_char c \<longleftrightarrow> c \<in> set hex_digits"
  by (cases c) (simp add: is_hex_char_def char_in_range_def hex_digits_def)

lemma bep20_body_iff:
  "bep20_body a \<longleftrightarrow> (\<exists>h. a = ''0x'' @ h \<and> length h = 40 \<and> set h \<subseteq> set hex_digits)"
proof
  assume b: "bep20_body a"
  then have "a = ''0x'' @ drop 2 a"
    unfolding bep20_body_def by (metis append_take_drop_id)
  moreover from b have "length (drop 2 a) = 40" "set (drop 2 a) \<subseteq> set hex_digits"
    unfolding bep20_body_def list_all_iff using is_hex_char_iff by auto
  ultimately show "\<exists>h. a = ''0x'' @ h \<and> length h = 40 \<and> set h \<subseteq> set hex_digits" by blast
next
  assume "\<exists>h. a = ''0x'' @ h \<and> length h = 40 \<and> set h \<subseteq> set hex_digits"
  then obtain h where "a = ''0x'' @ h" "length h = 40" "set h \<subseteq> set hex_digits" by blast
  then show "bep20_body a"
    unfolding bep20_body_def list_all_iff using is_hex_char_iff by auto
qed

lemma is_username_char_iff: "is_username_char c \<longleftrightarrow> c \<in> set username_alphabet"
  by (cases c) (simp add: is_username_char_def char_in_range_def username_alphabet_def)

lemma username_pattern_strip:
  "username_pattern (py_strip s) \<longleftrightarrow>
     py_strip s \<noteq> [] \<and> set (py_strip s) \<subseteq> set username_alphabet"
  unfolding username_pattern_def dollar_strip username_body_def list_all_iff
  using is_username_char_iff by blast

lemma if_chain3: "(if a then (x1::'a) else if b then x2 else x3) \<in> {x1, x2, x3}"
  by simp

lemma if_chain4: "(if a then (x1::'a) else if b then x2 else if c then x3 else x4) \<in> {x1, x2, x3, x4}"
  by simp

lemma if_chain8:
  "(if a then (x1::'a) else if b then x2 else if c then x3 else if d then x4
    else if e then x5 else if f then x6 else if g then x7 else x8)
   \<in> {x1, x2, x3, x4, x5, x6, x7, x8}"
  by simp

section \<open>The validators\<close>

subsection \<open>validate\_username\<close>

text \<open>
  Claim C1, as the code has it. \<open>validate_username\<close> rejects the empty input as empty
  before anything is stripped. It then strips every leading \<open>@\<close> (not one) and, after
  that, the surrounding whitespace, and checks the stripped handle \<open>s\<close> in this order:
  shorter than 3 (a handle that is blank after stripping is reported here), longer than
  30, a character outside letters, digits, underscore and period, a first character
  that is underscore or period, a last character that is underscore or period, one of
  the substrings \<open>__\<close>, \<open>..\<close>, \<open>._\<close>, \<open>_.\<close>. The first check that fails gives the reason.
  It accepts exactly when all of them pass.
\<close>

theorem validate_username_rules:
  fixes u :: string
  defines "s \<equiv> py_strip (dropWhile (\<lambda>c. c = CHR ''@'') u)"
  defines "badchar \<equiv> \<not> set s \<subseteq> set username_alphabet"
  defines "badstart \<equiv> hd s = CHR ''_'' \<or> hd s = CHR ''.''"
  defines "badend \<equiv> last s = CHR ''_'' \<or> last s = CHR ''.''"
  defines "consecutive \<equiv> \<exists>p q. s = p @ ''__'' @ q \<or> s = p @ ''..'' @ q
                                \<or> s = p @ ''._'' @ q \<or> s = p @ ''_.'' @ q"
  shows "validate_username u =
     (if u = [] then (False, ''Username cannot be empty'')
      else if length s < 3 then (False, ''Username must be at least 3 characters long'')
      else if 30 < length s then (False, ''Username cannot be longer than 30 characters'')
      else if badchar then
        (False, ''Username can only contain letters, numbers, underscores, and dots'')
      else if badstart then (False, ''Username cannot start with underscore or dot'')
      else if badend then (False, ''Username cannot end with underscore or dot'')
      else if consecutive then
        (False, ''Username cannot contain consecutive special characters'')
      else (True, ''Valid username''))
    \<and> (fst (validate_username u) \<longleftrightarrow>
         3 \<le> length s \<and> length s \<le> 30 \<and> \<not> badchar \<and> \<not> badstart \<and> \<not> badend \<and> \<not> consecutive)"
proof -
  have s: "py_strip (py_lstrip ''@'' u) = s"
    by (simp add: s_def py_lstrip_def)
  have pat: "\<not> length s < 3 \<Longrightarrow> (\<not> username_pattern s) = badchar"
    unfolding s_def badchar_def username_pattern_strip by auto
  have ne: "\<not> length s < 3 \<Longrightarrow> s \<noteq> []" by auto
  have sub: "(py_in ''__'' s \<or> py_in ''..'' s \<or> py_in ''._'' s \<or> py_in ''_.'' s) = consecutive"
    unfolding py_in_iff consecutive_def by blast
  have empty: "u = [] \<Longrightarrow> length s < 3"
    unfolding s_def py_strip_def by simp
  have eq: "validate_username u =
     (if u = [] then (False, ''Username cannot be empty'')
      else if length s < 3 then (False, ''Username must be at least 3 characters long'')
      else if 30 < length s then (False, ''Username cannot be longer than 30 characters'')
      else if badchar then
        (False, ''Username can only contain letters, numbers, underscores, and dots'')
      else if badstart then (False, ''Username cannot start with underscore or dot'')
      else if badend then (False, ''Username cannot end with underscore or dot'')
      else if consecutive then
        (False, ''Username cannot contain consecutive special characters'')
      else (True, ''Valid username''))"
  proof -
    consider (empty) "u = []" | (short) "u \<noteq> []" "length s < 3"
      | (rest) "u \<noteq> []" "\<not> length s < 3" by blast
    then show ?thesis
    proof cases
      case empty
      then show ?thesis
        unfolding validate_username_def by (simp only: simp_thms if_True)
    next
      case short
      then show ?thesis
        unfolding validate_username_def s Let_def by (simp only: simp_thms if_True if_False)
    next
      case rest
      show ?thesis
        unfolding validate_username_def s Let_def startswith_single endswith_single sub
        unfolding badstart_def badend_def
        by (simp only: rest pat [OF rest(2)] ne [OF rest(2)] if_True if_False simp_thms)
    qed
  qed
  have acc: "fst (validate_username u) \<longleftrightarrow>
         3 \<le> length s \<and> length s \<le> 30 \<and> \<not> badchar \<and> \<not> badstart \<and> \<not> badend \<and> \<not> consecutive"
    unfolding eq using empty
    by (simp only: if_distrib [of fst] fst_conv if_bool_eq_conj simp_thms not_less [symmetric]) blast
  from eq acc show ?thesis ..
qed

text \<open>The theorem at \<open>@john_crypto\<close>: every condition is met and the handle is accepted.\<close>

theorem validate_username_rules_witness:
  "py_strip (dropWhile (\<lambda>c. c = CHR ''@'') ''@john_crypto'') = ''john_crypto''
   \<and> validate_username ''@john_crypto'' = (True, ''Valid username'')
   \<and> fst (validate_username ''@john_crypto'')"
proof -
  have s: "py_strip (dropWhile (\<lambda>c. c = CHR ''@'') ''@john_crypto'') = ''john_crypto''"
    by (simp add: py_strip_def py_isspace_def)
  have c: "set ''john_crypto'' \<subseteq> set username_alphabet"
    by (simp add: username_alphabet_def)
  have "\<not> (py_in ''__'' ''john_crypto'' \<or> py_in ''..'' ''john_crypto''
      \<or> py_in ''._'' ''john_crypto'' \<or> py_in ''_.'' ''john_crypto'')"
    by (simp add: startswith_def)
  then have n: "\<not> (\<exists>p q. ''john_crypto'' = p @ ''__'' @ q \<or> ''john_crypto'' = p @ ''..'' @ q
      \<or> ''john_crypto'' = p @ ''._'' @ q \<or> ''john_crypto'' = p @ ''_.'' @ q)"
    unfolding py_in_iff by blast
  have l: "length ''john_crypto'' = 11" by simp
  have h: "hd ''john_crypto'' = CHR ''j''" "last ''john_crypto'' = CHR ''o''" by simp_all
  from validate_username_rules [of "''@john_crypto''"]
  have "validate_username ''@john_crypto'' = (True, ''Valid username'')
     \<and> fst (validate_username ''@john_crypto'')"
    unfolding s by (simp only: n c l h) simp
  with s show ?thesis by simp
qed

text \<open>
  The claim as worded fails on two inputs. On \<open>@@abc\<close> the code strips both \<open>@\<close> and
  accepts, where stripping a single \<open>@\<close> leaves \<open>@abc\<close>, which has an invalid character.
  On \<open>@\<close> the stripped handle is blank, and the code reports it as too short, not as
  empty.
\<close>

theorem validate_username_counterexample:
  "validate_username ''@@abc'' = (True, ''Valid username'')
   \<and> spec_validateHandle ''@@abc'' = Some InvalidCharacters
   \<and> validate_username ''@'' = (False, ''Username must be at least 3 characters long'')
   \<and> spec_validateHandle ''@'' = Some EmptyInput"
  by (simp add: validate_username_def spec_validateHandle_def spec_strip_handle_def py_strip_def
      py_lstrip_def py_isspace_def username_pattern_def username_body_def dollar_def
      is_username_char_def char_in_range_def startswith_def endswith_def)

subsection \<open>validate\_bep20\_address\<close>

text \<open>
  Claim C2, as the code has it. \<open>validate_bep20_address\<close> rejects the empty input as
  empty, and otherwise judges the input with its surrounding whitespace stripped: it
  accepts exactly when the stripped string is \<open>0x\<close> followed by 40 hexadecimal
  characters and its lowercasing is neither the all-zero nor the dead address. An input
  of whitespace only is not empty and fails with the format reason.
\<close>

theorem validate_bep20_address_rules:
  fixes a0 :: string
  defines "a \<equiv> py_strip a0"
  defines "wellformed \<equiv> \<exists>h. a = ''0x'' @ h \<and> length h = 40 \<and> set h \<subseteq> set hex_digits"
  defines "blocked \<equiv> py_lower a = ''0x0000000000000000000000000000000000000000''
                    \<or> py_lower a = ''0x000000000000000000000000000000000000dead''"
  shows "validate_bep20_address a0 =
           (if a0 = [] then (False, ''Address cannot be empty'')
            else if \<not> wellformed then
              (False, ''Invalid BEP20 address format. Must be 42 characters starting with 0x'')
            else if blocked then (False, ''Invalid address: Cannot use zero or dead addresses'')
            else (True, ''Valid BEP20 address''))
         \<and> (fst (validate_bep20_address a0) \<longleftrightarrow> wellformed \<and> \<not> blocked)"
proof -
  have pat: "bep20_pattern (py_strip a0) = wellformed"
    unfolding bep20_pattern_def dollar_strip bep20_body_iff wellformed_def a_def ..
  have blk: "(py_lower (py_strip a0) \<in> set invalid_addresses) = blocked"
    unfolding blocked_def a_def invalid_addresses_def by (simp only: list.set insert_iff empty_iff simp_thms)
  have empty: "a0 = [] \<Longrightarrow> \<not> wellformed"
    unfolding wellformed_def a_def py_strip_def by simp
  have eq: "validate_bep20_address a0 =
           (if a0 = [] then (False, ''Address cannot be empty'')
            else if \<not> wellformed then
              (False, ''Invalid BEP20 address format. Must be 42 characters starting with 0x'')
            else if blocked then (False, ''Invalid address: Cannot use zero or dead addresses'')
            else (True, ''Valid BEP20 address''))"
    unfolding validate_bep20_address_def Let_def pat blk ..
  have acc: "fst (validate_bep20_address a0) \<longleftrightarrow> wellformed \<and> \<not> blocked"
    unfolding eq using empty by (simp only: if_distrib [of fst] fst_conv if_bool_eq_conj simp_thms) blast
  from eq acc show ?thesis ..
qed

text \<open>The theorem at a well-formed address followed by a newline, which is accepted.\<close>

theorem validate_bep20_address_rules_witness:
  "py_strip ''0x742d35Cc6634C0532925a3b8D4B29E3f5fCffd52\<newline>''
     = ''0x'' @ ''742d35Cc6634C0532925a3b8D4B29E3f5fCffd52''
   \<and> validate_bep20_address ''0x742d35Cc6634C0532925a3b8D4B29E3f5fCffd52\<newline>''
     = (True, ''Valid BEP20 address'')"
proof -
  let ?h = "''742d35Cc6634C0532925a3b8D4B29E3f5fCffd52''"
  have s: "py_strip ''0x742d35Cc6634C0532925a3b8D4B29E3f5fCffd52\<newline>'' = ''0x'' @ ?h"
    by (simp add: py_strip_def py_isspace_def)
  have "length ?h = 40 \<and> set ?h \<subseteq> set hex_digits"
    by (simp add: hex_digits_def)
  then have w: "\<exists>h. ''0x'' @ ?h = ''0x'' @ h \<and> length h = 40 \<and> set h \<subseteq> set hex_digits"
    by blast
  have b: "py_lower (''0x'' @ ?h) \<noteq> ''0x0000000000000000000000000000000000000000''"
    "py_lower (''0x'' @ ?h) \<noteq> ''0x000000000000000000000000000000000000dead''"
    by (simp_all add: py_lower_def py_lower_char_def)
  from validate_bep20_address_rules [of "''0x742d35Cc6634C0532925a3b8D4B29E3f5fCffd52\<newline>''"]
  have "validate_bep20_address ''0x742d35Cc6634C0532925a3b8D4B29E3f5fCffd52\<newline>''
     = (True, ''Valid BEP20 address'')"
    unfolding s using w b by (simp only: simp_thms if_True if_False) simp
  with s show ?thesis by simp
qed

text \<open>
  The claim as worded fails on an address with a leading space: it is accepted, and it
  is not exactly \<open>0x\<close> followed by 40 hexadecimal characters. A blank input of two spaces
  fails with the format reason, not with the empty-input reason.
\<close>

theorem validate_bep20_address_counterexample:
  "fst (validate_bep20_address '' 0x742d35Cc6634C0532925a3b8D4B29E3f5fCffd52'')
   \<and> \<not> spec_validateAddress_accepts '' 0x742d35Cc6634C0532925a3b8D4B29E3f5fCffd52''
   \<and> validate_bep20_address ''  '' =
       (False, ''Invalid BEP20 address format. Must be 42 characters starting with 0x'')"
  by (simp add: validate_bep20_address_def spec_validateAddress_accepts_def py_strip_def
      py_isspace_def bep20_pattern_def bep20_body_def dollar_def is_hex_char_def char_in_range_def
      py_lower_def py_lower_char_def invalid_addresses_def char_of_def bit_Suc_0_iff)

subsection \<open>Totality\<close>

text \<open>
  On a string every operation of the two string validators gets an object that supports
  it, and so does every operation of the screenshot validator on an integer and a string:
  the reading on Python values returns what the typed validators compute.
\<close>

lemma any_endswith_str:
  "any_endswith (PyStr f) exts = Inr (list_ex (\<lambda>ext. endswith (py_lower f) ext) exts)"
  by (induction exts) (simp_all add: py_bind_def)

lemma validate_bep20_address_dyn_str:
  "validate_bep20_address_dyn (PyStr a) = Inr (validate_bep20_address a)"
  unfolding validate_bep20_address_dyn_def validate_bep20_address_def Let_def
  by (simp add: py_bind_def del: set_simps)

lemma validate_screenshot_dyn_str:
  "validate_screenshot_dyn (PyInt n) (PyStr f) = Inr (validate_screenshot n f)"
  unfolding validate_screenshot_dyn_def validate_screenshot_def Let_def
  by (simp add: py_bind_def any_endswith_str)

lemma validate_username_dyn_str:
  "validate_username_dyn (PyStr u) = Inr (validate_username u)"
  unfolding validate_username_dyn_def validate_username_def Let_def
  by (simp add: py_bind_def or_else_def)

text \<open>
  The raising branches are live: on an object outside the declared types the same
  validators raise (an empty object is still reported as empty, before any method is
  looked up).
\<close>

lemma validators_raise_on_other_objects:
  "validate_bep20_address_dyn (PyInt 5) = Inl AttributeError"
  "validate_bep20_address_dyn PyNone = Inr (False, ''Address cannot be empty'')"
  "validate_username_dyn (PyInt 5) = Inl AttributeError"
  "validate_screenshot_dyn (PyStr ''big'') (PyStr ''a.png'') = Inl TypeError"
  "validate_screenshot_dyn (PyInt 10) PyNone = Inl AttributeError"
  by (simp_all add: validate_bep20_address_dyn_def validate_username_dyn_def
      validate_screenshot_dyn_def py_bind_def valid_extensions_def)

text \<open>
  Claim C9. For every string passed to \<open>validate_bep20_address\<close> or
  \<open>validate_username\<close>, and every integer and string passed to \<open>validate_screenshot\<close>,
  the validator raises no exception: run on Python objects, where each operation raises
  on an object that does not support it, it returns a pair of a flag and a reason, the
  pair that the typed validator computes, and that pair is one of the pairs the source
  lists. This holds for malformed input as well: empty, blank, too long, or with
  characters outside the pattern.
\<close>

theorem validators_never_raise:
  "validate_bep20_address_dyn (PyStr a) = Inr (validate_bep20_address a)
   \<and> validate_username_dyn (PyStr u) = Inr (validate_username u)
   \<and> validate_screenshot_dyn (PyInt n) (PyStr f) = Inr (validate_screenshot n f)
   \<and> validate_bep20_address a \<in>
     {(False, ''Address cannot be empty''),
      (False, ''Invalid BEP20 address format. Must be 42 characters starting with 0x''),
      (False, ''Invalid address: Cannot use zero or dead addresses''),
      (True, ''Valid BEP20 address'')}
   \<and> validate_username u \<in>
     {(False, ''Username cannot be empty''),
      (False, ''Username must be at least 3 characters long''),
      (False, ''Username cannot be longer than 30 characters''),
      (False, ''Username can only contain letters, numbers, underscores, and dots''),
      (False, ''Username cannot start with underscore or dot''),
      (False, ''Username cannot end with underscore or dot''),
      (False, ''Username cannot contain consecutive special characters''),
      (True, ''Valid username'')}
   \<and> validate_screenshot n f \<in>
     {(False, ''File size too large. Maximum 5MB allowed''),
      (False, ''Invalid file type. Please send image files only (jpg, png, gif, etc.)''),
      (True, ''Valid screenshot'')}"
proof -
  have range: "validate_bep20_address a \<in>
     {(False, ''Address cannot be empty''),
      (False, ''Invalid BEP20 address format. Must be 42 characters starting with 0x''),
      (False, ''Invalid address: Cannot use zero or dead addresses''),
      (True, ''Valid BEP20 address'')}
   \<and> validate_username u \<in>
     {(False, ''Username cannot be empty''),
      (False, ''Username must be at least 3 characters long''),
      (False, ''Username cannot be longer than 30 characters''),
      (False, ''Username can only contain letters, numbers, underscores, and dots''),
      (False, ''Username cannot start with underscore or dot''),
      (False, ''Username cannot end with underscore or dot''),
      (False, ''Username cannot contain consecutive special characters''),
      (True, ''Valid username'')}
   \<and> validate_screenshot n f \<in>
     {(False, ''File size too large. Maximum 5MB allowed''),
      (False, ''Invalid file type. Please send image files only (jpg, png, gif, etc.)''),
      (True, ''Valid screenshot'')}"
    unfolding validate_bep20_address_def validate_username_def validate_screenshot_def Let_def
    by (intro conjI if_chain3 if_chain4 if_chain8)
  from validate_bep20_address_dyn_str [of a] validate_username_dyn_str [of u]
    validate_screenshot_dyn_str [of n f] range
  show ?thesis by (intro conjI) blast+
qed

text \<open>The theorem at three malformed inputs: each gets a reason, none raises.\<close>

theorem validators_never_raise_witness:
  "validate_username_dyn (PyStr ''@'') = Inr (False, ''Username must be at least 3 characters long'')
   \<and> validate_bep20_address_dyn (PyStr ''0xZZ'') =
       Inr (False, ''Invalid BEP20 address format. Must be 42 characters starting with 0x'')
   \<and> validate_screenshot_dyn (PyInt (- 1)) (PyStr []) =
       Inr (False, ''Invalid file type. Please send image files only (jpg, png, gif, etc.)'')"
proof -
  have 1: "validate_username ''@'' = (False, ''Username must be at least 3 characters long'')"
    by (simp add: validate_username_def py_strip_def py_lstrip_def)
  have 2: "validate_bep20_address ''0xZZ'' =
       (False, ''Invalid BEP20 address format. Must be 42 characters starting with 0x'')"
    by (simp add: validate_bep20_address_def py_strip_def py_isspace_def bep20_pattern_def
        bep20_body_def dollar_def)
  have 3: "validate_screenshot (- 1) [] =
       (False, ''Invalid file type. Please send image files only (jpg, png, gif, etc.)'')"
    by (simp add: validate_screenshot_def valid_extensions_def endswith_def py_lower_def)
  from validators_never_raise [of "''0xZZ''" "''@''" "- 1" "[]"] 1 2 3
  show ?thesis by simp
qed

subsection \<open>validate\_screenshot\<close>

text \<open>
  Claim C10. \<open>validate_screenshot\<close> has no lower bound on the size: for every size of at
  most 5242880, zero and negative sizes included, the file is accepted exactly when the
  lowercased file name ends with one of the six extensions. A name that is only an
  extension is accepted.
\<close>

theorem validate_screenshot_no_lower_bound:
  "n \<le> 5242880 \<Longrightarrow>
   validate_screenshot n f =
     (if \<exists>e \<in> {''.jpg'', ''.jpeg'', ''.png'', ''.gif'', ''.bmp'', ''.webp''}. \<exists>p. py_lower f = p @ e
      then (True, ''Valid screenshot'')
      else (False, ''Invalid file type. Please send image files only (jpg, png, gif, etc.)''))"
proof -
  assume n: "n \<le> 5242880"
  have ex: "list_ex (\<lambda>ext. endswith (py_lower f) ext) valid_extensions \<longleftrightarrow>
      (\<exists>e \<in> {''.jpg'', ''.jpeg'', ''.png'', ''.gif'', ''.bmp'', ''.webp''}. \<exists>p. py_lower f = p @ e)"
    unfolding list_ex_iff endswith_iff valid_extensions_def by (simp only: list.set)
  have sz: "\<not> n > 5 * 1024 * 1024" using n by simp
  show ?thesis
  proof (cases "\<exists>e \<in> {''.jpg'', ''.jpeg'', ''.png'', ''.gif'', ''.bmp'', ''.webp''}. \<exists>p. py_lower f = p @ e")
    case True
    then show ?thesis
      unfolding validate_screenshot_def Let_def ex by (simp only: sz if_False if_True simp_thms)
  next
    case False
    then show ?thesis
      unfolding validate_screenshot_def Let_def ex by (simp only: sz if_False if_True simp_thms)
  qed
qed

text \<open>The theorem at size 0 with the name \<open>.jpg\<close>, and at size -1 with the name \<open>Photo.JPG\<close>.\<close>

theorem validate_screenshot_no_lower_bound_witness:
  "(0::int) \<le> 5242880 \<and> validate_screenshot 0 ''.jpg'' = (True, ''Valid screenshot'')
   \<and> (- 1::int) \<le> 5242880 \<and> validate_screenshot (- 1) ''Photo.JPG'' = (True, ''Valid screenshot'')"
proof -
  have a: "py_lower ''.jpg'' = [] @ ''.jpg''"
    by (simp add: py_lower_def py_lower_char_def)
  have b: "py_lower ''Photo.JPG'' = ''photo'' @ ''.jpg''"
    by (simp add: py_lower_def py_lower_char_def char_of_def bit_Suc_0_iff)
  have ea: "\<exists>e \<in> {''.jpg'', ''.jpeg'', ''.png'', ''.gif'', ''.bmp'', ''.webp''}. \<exists>p. py_lower ''.jpg'' = p @ e"
    using a by blast
  have eb: "\<exists>e \<in> {''.jpg'', ''.jpeg'', ''.png'', ''.gif'', ''.bmp'', ''.webp''}. \<exists>p. py_lower ''Photo.JPG'' = p @ e"
    using b by blast
  have z: "(0::int) \<le> 5242880" "(- 1::int) \<le> 5242880" by simp_all
  from validate_screenshot_no_lower_bound [OF z(1), of "''.jpg''"]
    validate_screenshot_no_lower_bound [OF z(2), of "''Photo.JPG''"] ea eb z
  show ?thesis by (simp only: if_True simp_thms)
qed

section \<open>The progress store\<close>

lemma website_missing: "getitem SOCIAL_LINKS ''website'' = Inl KeyError"
  by (simp add: getitem_def SOCIAL_LINKS_def)

lemma step_prompt_ok: "step_prompt step = Inr (StepPrompt step)"
  by (simp add: step_prompt_def keyboard_link_def getitem_def SOCIAL_LINKS_def)


lemma show_step_callback_ok:
  "show_step_callback step = Inr (if step > 6 then AllStepsCompleted else StepPrompt step)"
  by (simp add: show_step_callback_def step_prompt_ok)

lemma then_show_Inr: "then_show db sent (Inr r) = (db, sent @ [r], None)"
  by (simp add: then_show_def)

lemma fst_then_show: "fst (then_show db sent shown) = db"
  by (simp add: then_show_def split: sum.splits)

lemma fst_update_one:
  "fst (update_one db uid upd) = (case db uid of None \<Rightarrow> db | Some d \<Rightarrow> db(uid \<mapsto> upd d))"
  by (auto simp: update_one_def split: option.splits)

lemma fst_update_user_step:
  "fst (update_user_step db uid n c t) =
     (case db uid of None \<Rightarrow> db
      | Some d \<Rightarrow> db(uid \<mapsto> d\<lparr>current_step := (if c then n + 1 else n),
                              steps_completed := AList.update n c (steps_completed d),
                              updated_at := t\<rparr>))"
  by (simp add: update_user_step_def case_prod_beta fst_update_one)

lemma fst_save_social_username:
  "fst (save_social_username db uid pf un t) =
     (case db uid of None \<Rightarrow> db
      | Some d \<Rightarrow> db(uid \<mapsto> d\<lparr>social_usernames := AList.update pf (Some un) (social_usernames d),
                              updated_at := t\<rparr>))"
  by (simp add: save_social_username_def case_prod_beta fst_update_one)

lemma fst_save_bep20_address:
  "fst (save_bep20_address db uid ad t) =
     (case db uid of None \<Rightarrow> db
      | Some d \<Rightarrow> db(uid \<mapsto> d\<lparr>bep20_address := Some ad, updated_at := t\<rparr>))"
  by (simp add: save_bep20_address_def case_prod_beta fst_update_one)

lemma alist_update_twice: "AList.update k v (AList.update k w al) = AList.update k v al"
  by (induction al) auto

text \<open>
  Claim C7, as the code has it. A second \<open>update_user_step\<close> with the same step and
  flag leaves \<open>current_step\<close> and \<open>steps_completed\<close> as the first call left them, and
  every other field too, except \<open>updated_at\<close>: each call stores its own clock reading
  there. The collection after the retry is the collection after the first call with
  \<open>updated_at\<close> of that record set to the clock reading of the retry; it is also the
  collection that one call made at the time of the retry leaves.
\<close>

theorem update_user_step_retry:
  "fst (update_user_step (fst (update_user_step db uid n c t1)) uid n c t2) =
     (\<lambda>k. if k = uid
          then map_option (\<lambda>d. d\<lparr>updated_at := t2\<rparr>) (fst (update_user_step db uid n c t1) k)
          else fst (update_user_step db uid n c t1) k)
   \<and> map_option current_step (fst (update_user_step (fst (update_user_step db uid n c t1)) uid n c t2) uid)
     = map_option current_step (fst (update_user_step db uid n c t1) uid)
   \<and> map_option steps_completed (fst (update_user_step (fst (update_user_step db uid n c t1)) uid n c t2) uid)
     = map_option steps_completed (fst (update_user_step db uid n c t1) uid)
   \<and> fst (update_user_step (fst (update_user_step db uid n c t1)) uid n c t2)
     = fst (update_user_step db uid n c t2)"
  by (cases "db uid") (auto simp: fst_update_user_step alist_update_twice)

section \<open>Step order is kept\<close>

lemma update_one_cases:
  "update_one db uid upd = (db, 0)
   \<or> (\<exists>d. db uid = Some d \<and> update_one db uid upd = (db(uid \<mapsto> upd d), 1))"
  by (auto simp: update_one_def split: option.splits)

lemma steps_in_order_advance:
  assumes "steps_in_order d" and "current_step d = k"
  shows "steps_in_order (d\<lparr>current_step := k + 1,
            steps_completed := AList.update k True (steps_completed d), updated_at := t\<rparr>)"
  using assms by (auto simp: steps_in_order_def update_conv')

lemma all_in_order_upd:
  "all_in_order db \<Longrightarrow> steps_in_order d \<Longrightarrow> all_in_order (db(uid \<mapsto> d))"
  by (simp add: all_in_order_def)

lemma all_in_order_step:
  assumes "all_in_order db" and "db uid = Some d" and "current_step d = k"
  shows "all_in_order (fst (update_user_step db uid k True t))"
proof -
  from assms(1,2) have "steps_in_order d" by (simp add: all_in_order_def)
  from steps_in_order_advance [OF this assms(3)] assms(1,2) show ?thesis
    by (simp add: fst_update_user_step all_in_order_upd)
qed

lemma all_in_order_reset: "all_in_order db \<Longrightarrow> all_in_order (fst (update_one db uid (reset_fields t)))"
  by (auto simp: fst_update_one reset_fields_def steps_in_order_def
      intro!: all_in_order_upd split: option.splits)

lemma save_social_username_effect:
  assumes "db uid = Some d"
  shows "save_social_username db uid pf un t = (db, False)
    \<or> save_social_username db uid pf un t =
         (db(uid \<mapsto> d\<lparr>social_usernames := AList.update pf (Some un) (social_usernames d),
                        updated_at := t\<rparr>), True)"
  using assms update_one_cases [of db uid
      "\<lambda>d. d\<lparr>social_usernames := AList.update pf (Some un) (social_usernames d), updated_at := t\<rparr>"]
  by (auto simp: save_social_username_def)

lemma save_bep20_address_effect:
  assumes "db uid = Some d"
  shows "save_bep20_address db uid ad t = (db, False)
    \<or> save_bep20_address db uid ad t =
         (db(uid \<mapsto> d\<lparr>bep20_address := Some ad, updated_at := t\<rparr>), True)"
  using assms update_one_cases [of db uid "\<lambda>d. d\<lparr>bep20_address := Some ad, updated_at := t\<rparr>"]
  by (auto simp: save_bep20_address_def)

lemma handle_social_effect:
  assumes "db uid = Some d"
  shows "fst (handle_social db uid pf k msg t1 t2) = db
    \<or> fst (handle_social db uid pf k msg t1 t2) =
        db(uid \<mapsto> d\<lparr>social_usernames :=
                         AList.update pf (Some (py_strip (py_lstrip ''@'' msg))) (social_usernames d),
                       current_step := k + 1,
                       steps_completed := AList.update k True (steps_completed d),
                       updated_at := t2\<rparr>)"
  using save_social_username_effect [of db uid d pf "py_strip (py_lstrip ''@'' msg)" t1] assms
  by (auto simp: handle_social_def Let_def fst_then_show fst_update_user_step split: prod.splits)

lemma all_in_order_handle_social:
  assumes "all_in_order db" and "db uid = Some d" and "current_step d = k"
  shows "all_in_order (fst (handle_social db uid pf k msg t1 t2))"
proof -
  from assms(1,2) have "steps_in_order d" by (simp add: all_in_order_def)
  then have "steps_in_order (d\<lparr>social_usernames :=
                         AList.update pf (Some (py_strip (py_lstrip ''@'' msg))) (social_usernames d),
                       current_step := k + 1,
                       steps_completed := AList.update k True (steps_completed d),
                       updated_at := t2\<rparr>)"
    using assms(3) by (auto simp: steps_in_order_def update_conv')
  then show ?thesis
    using handle_social_effect [of db uid d pf k msg t1 t2] assms(1,2)
    by (auto intro: all_in_order_upd)
qed

lemma handle_address_effect:
  assumes "db uid = Some d"
  shows "save_bep20_address db uid ad t1 = (db1, saved) \<Longrightarrow>
     (\<not> saved \<and> db1 = db) \<or>
     (saved \<and> fst (update_user_step db1 uid 5 True t2) =
        db(uid \<mapsto> d\<lparr>bep20_address := Some ad, current_step := 5 + 1,
                       steps_completed := AList.update 5 True (steps_completed d),
                       updated_at := t2\<rparr>))"
  using save_bep20_address_effect [of db uid d ad t1] assms
  by (auto simp: fst_update_user_step)

lemma all_in_order_handle_message:
  assumes "all_in_order db"
  shows "all_in_order (fst (handle_message db uid msg t1 t2))"
proof (cases "db uid")
  case None
  with assms show ?thesis by (simp add: handle_message_def get_user_def find_one_def)
next
  case (Some d)
  from assms Some have ok: "steps_in_order d" by (simp add: all_in_order_def)
  consider (two) "current_step d = 2" | (three) "current_step d = 3" | (five) "current_step d = 5"
    | (other) "current_step d \<noteq> 2" "current_step d \<noteq> 3" "current_step d \<noteq> 5" by blast
  then show ?thesis
  proof cases
    case two
    with Some all_in_order_handle_social [of db uid d 2] assms show ?thesis
      by (simp add: handle_message_def get_user_def find_one_def)
  next
    case three
    with Some all_in_order_handle_social [of db uid d 3] assms show ?thesis
      by (simp add: handle_message_def get_user_def find_one_def)
  next
    case five
    have adv: "steps_in_order (d\<lparr>bep20_address := Some (py_strip msg), current_step := 5 + 1,
                       steps_completed := AList.update 5 True (steps_completed d),
                       updated_at := t2\<rparr>)"
      using ok five by (auto simp: steps_in_order_def update_conv')
    show ?thesis
      using Some five assms adv handle_address_effect [of db uid d "py_strip msg" t1 _ _ t2]
      by (auto simp: handle_message_def get_user_def find_one_def Let_def fst_then_show
          split: prod.splits intro: all_in_order_upd)
  next
    case other
    with Some assms show ?thesis
      by (simp add: handle_message_def get_user_def find_one_def)
  qed
qed

lemma all_in_order_button_handler:
  assumes "all_in_order db"
  shows "all_in_order (fst (button_handler db uid btn m t))"
proof (cases "db uid")
  case None
  with assms show ?thesis by (simp add: button_handler_def get_user_def find_one_def)
next
  case (Some d)
  have step: "current_step d = k \<Longrightarrow> all_in_order (fst (update_user_step db uid k True t))" for k
    using all_in_order_step [of db uid d k t] assms Some by blast
  show ?thesis
    using Some assms step [of 1] step [of 4] step [of 6] all_in_order_reset [OF assms, of uid t]
    by (simp add: button_handler_def get_user_def find_one_def Let_def fst_then_show
        split: sum.splits)
qed

lemma all_in_order_reset_command:
  "all_in_order db \<Longrightarrow> all_in_order (fst (reset_command db uid t))"
  using all_in_order_reset [of db uid t]
  by (simp add: reset_command_def case_prod_beta)

lemma all_in_order_start:
  assumes "all_in_order db"
  shows "all_in_order (fst (start db uid un fn t1 t2))"
  using assms
  by (auto simp: start_def Let_def get_user_def find_one_def create_user_def insert_one_def
      fst_then_show steps_in_order_def website_missing
      split: option.splits intro!: all_in_order_upd)

lemma reachable_all_in_order: "reachable db \<Longrightarrow> all_in_order db"
proof (induction rule: reachable.induct)
  case reach_empty
  show ?case by (simp add: all_in_order_def)
next
  case (reach_start db uid tg_uname tg_fname now1 now2)
  then show ?case by (simp add: all_in_order_start)
next
  case (reach_button db uid btn m now)
  then show ?case by (simp add: all_in_order_button_handler)
next
  case (reach_message db uid msg now1 now2)
  then show ?case by (simp add: all_in_order_handle_message)
next
  case (reach_reset db uid now)
  then show ?case by (simp add: all_in_order_reset_command)
qed

text \<open>
  Claim C4. In every collection the handlers can reach from the empty one, whatever the
  users, buttons, texts, membership answers and clock readings, a step that a record
  marks completed lies below the record's \<open>current_step\<close>: if \<open>steps_completed\<close> holds
  \<open>True\<close> for step \<open>n\<close> then \<open>current_step\<close> is at least \<open>n + 1\<close>. This holds for every
  \<open>n\<close>, the steps 1 to 6 among them.
\<close>

theorem completed_steps_below_current_step:
  assumes "reachable db" and "db uid = Some r" and "map_of (steps_completed r) n = Some True"
  shows "current_step r \<ge> n + 1"
  using reachable_all_in_order [OF assms(1)] assms(2,3)
  by (simp add: all_in_order_def steps_in_order_def)

section \<open>The sample session, step by step\<close>

lemma valid_john_crypto: "validate_username ''john_crypto'' = (True, ''Valid username'')"
  by (simp add: validate_username_def py_strip_def py_lstrip_def py_isspace_def
      username_pattern_def username_body_def dollar_def is_username_char_def char_in_range_def
      startswith_def endswith_def)

lemma valid_john_dot_crypto: "validate_username ''john.crypto'' = (True, ''Valid username'')"
  by (simp add: validate_username_def py_strip_def py_lstrip_def py_isspace_def
      username_pattern_def username_body_def dollar_def is_username_char_def char_in_range_def
      startswith_def endswith_def)

lemma strip_john_crypto:
  "py_strip ''john_crypto'' = ''john_crypto''" "py_lstrip ''@'' ''john_crypto'' = ''john_crypto''"
  "py_strip ''john.crypto'' = ''john.crypto''" "py_lstrip ''@'' ''john.crypto'' = ''john.crypto''"
  by (simp_all add: py_strip_def py_lstrip_def py_isspace_def)

lemma run1_eq:
  "run1 = (\<lambda>uid. None)(7 \<mapsto>
     \<lparr>doc_id = 7, username = ''john'', first_name = ''John'', current_step = 1,
      steps_completed = [], bep20_address = None,
      social_usernames = [(''twitter'', None), (''instagram'', None)],
      screenshots = [], created_at = 10, updated_at = 11\<rparr>)"
  by (simp add: run1_def start_def py_or_def get_user_def find_one_def create_user_def
      insert_one_def fst_then_show Let_def)

lemma run2_eq:
  "run2 = (\<lambda>uid. None)(7 \<mapsto>
     \<lparr>doc_id = 7, username = ''john'', first_name = ''John'', current_step = 2,
      steps_completed = [(1, True)], bep20_address = None,
      social_usernames = [(''twitter'', None), (''instagram'', None)],
      screenshots = [], created_at = 10, updated_at = 20\<rparr>)"
  by (simp add: run2_def run1_eq button_handler_def get_user_def find_one_def fst_then_show
      fst_update_user_step)

lemma run3_eq:
  "run3 = (\<lambda>uid. None)(7 \<mapsto>
     \<lparr>doc_id = 7, username = ''john'', first_name = ''John'', current_step = 3,
      steps_completed = [(1, True), (2, True)], bep20_address = None,
      social_usernames = [(''twitter'', Some ''john_crypto''), (''instagram'', None)],
      screenshots = [], created_at = 10, updated_at = 31\<rparr>)"
  by (simp add: run3_def run2_eq handle_message_def handle_social_def get_user_def find_one_def
      strip_john_crypto valid_john_crypto verify_social_follow_def save_social_username_def
      update_one_def fst_then_show fst_update_user_step Let_def)

lemma run4_eq:
  "run4 = (\<lambda>uid. None)(7 \<mapsto>
     \<lparr>doc_id = 7, username = ''john'', first_name = ''John'', current_step = 4,
      steps_completed = [(1, True), (2, True), (3, True)], bep20_address = None,
      social_usernames = [(''twitter'', Some ''john_crypto''), (''instagram'', Some ''john.crypto'')],
      screenshots = [], created_at = 10, updated_at = 41\<rparr>)"
  by (simp add: run4_def run3_eq handle_message_def handle_social_def get_user_def find_one_def
      strip_john_crypto valid_john_dot_crypto verify_social_follow_def save_social_username_def
      update_one_def fst_then_show fst_update_user_step Let_def)

lemma reachable_runs: "reachable run1" "reachable run2" "reachable run3" "reachable run4"
  unfolding run1_def run2_def run3_def run4_def by (intro reachable.intros)+

lemma valid_sample_address:
  "validate_bep20_address ''0x742d35Cc6634C0532925a3b8D4B29E3f5fCffd52'' = (True, ''Valid BEP20 address'')"
  "py_strip ''0x742d35Cc6634C0532925a3b8D4B29E3f5fCffd52'' = ''0x742d35Cc6634C0532925a3b8D4B29E3f5fCffd52''"
  by (simp_all add: validate_bep20_address_def py_strip_def
      py_isspace_def bep20_pattern_def bep20_body_def dollar_def is_hex_char_def char_in_range_def
      py_lower_def py_lower_char_def invalid_addresses_def char_of_def bit_Suc_0_iff)

lemma run5_eq:
  "run5 = (\<lambda>uid. None)(7 \<mapsto>
     \<lparr>doc_id = 7, username = ''john'', first_name = ''John'', current_step = 5,
      steps_completed = [(1, True), (2, True), (3, True), (4, True)], bep20_address = None,
      social_usernames = [(''twitter'', Some ''john_crypto''), (''instagram'', Some ''john.crypto'')],
      screenshots = [], created_at = 10, updated_at = 50\<rparr>)"
  by (simp add: run5_def run4_eq button_handler_def get_user_def find_one_def fst_then_show
      fst_update_user_step)

lemma run6_eq:
  "run6 = (\<lambda>uid. None)(7 \<mapsto>
     \<lparr>doc_id = 7, username = ''john'', first_name = ''John'', current_step = 6,
      steps_completed = [(1, True), (2, True), (3, True), (4, True), (5, True)],
      bep20_address = Some ''0x742d35Cc6634C0532925a3b8D4B29E3f5fCffd52'',
      social_usernames = [(''twitter'', Some ''john_crypto''), (''instagram'', Some ''john.crypto'')],
      screenshots = [], created_at = 10, updated_at = 61\<rparr>)"
  by (simp add: run6_def run5_eq handle_message_def get_user_def find_one_def
      valid_sample_address save_bep20_address_def
      update_one_def fst_then_show fst_update_user_step Let_def)



text \<open>
  The retry theorem on the sample session after the button of step 1: step 2 is completed
  at clock reading 30 and the call is repeated at 35.
\<close>

theorem update_user_step_retry_witness:
  "fst (update_user_step run2 7 2 True 30) 7 =
     Some \<lparr>doc_id = 7, username = ''john'', first_name = ''John'', current_step = 3,
       steps_completed = [(1, True), (2, True)], bep20_address = None,
       social_usernames = [(''twitter'', None), (''instagram'', None)],
       screenshots = [], created_at = 10, updated_at = 30\<rparr>
   \<and> fst (update_user_step (fst (update_user_step run2 7 2 True 30)) 7 2 True 35) 7 =
     Some \<lparr>doc_id = 7, username = ''john'', first_name = ''John'', current_step = 3,
       steps_completed = [(1, True), (2, True)], bep20_address = None,
       social_usernames = [(''twitter'', None), (''instagram'', None)],
       screenshots = [], created_at = 10, updated_at = 35\<rparr>"
proof -
  have once: "fst (update_user_step run2 7 2 True 30) 7 =
     Some \<lparr>doc_id = 7, username = ''john'', first_name = ''John'', current_step = 3,
       steps_completed = [(1, True), (2, True)], bep20_address = None,
       social_usernames = [(''twitter'', None), (''instagram'', None)],
       screenshots = [], created_at = 10, updated_at = 30\<rparr>"
    by (simp add: fst_update_user_step run2_eq)
  from update_user_step_retry [of run2 7 2 True 30 35]
  have "fst (update_user_step (fst (update_user_step run2 7 2 True 30)) 7 2 True 35) 7 =
      map_option (\<lambda>d. d\<lparr>updated_at := 35\<rparr>) (fst (update_user_step run2 7 2 True 30) 7)"
    by simp
  with once show ?thesis by simp
qed

text \<open>
  The claim as worded fails there: the collection after the retry is not the collection
  after the first call, since \<open>updated_at\<close> is 35 after the retry and 30 after the first
  call.
\<close>

theorem update_user_step_retry_counterexample:
  "map_option updated_at (fst (update_user_step (fst (update_user_step run2 7 2 True 30)) 7 2 True 35) 7)
     = Some 35
   \<and> map_option updated_at (fst (update_user_step run2 7 2 True 30) 7) = Some 30
   \<and> fst (update_user_step (fst (update_user_step run2 7 2 True 30)) 7 2 True 35)
     \<noteq> fst (update_user_step run2 7 2 True 30)"
proof -
  have a: "map_option updated_at
      (fst (update_user_step (fst (update_user_step run2 7 2 True 30)) 7 2 True 35) 7) = Some 35"
    and b: "map_option updated_at (fst (update_user_step run2 7 2 True 30) 7) = Some 30"
    by (simp_all add: fst_update_user_step run2_eq)
  from a b have "fst (update_user_step (fst (update_user_step run2 7 2 True 30)) 7 2 True 35)
     \<noteq> fst (update_user_step run2 7 2 True 30)" by auto
  with a b show ?thesis by blast
qed

text \<open>
  The theorem on the sample session, after the Twitter handle: the record is at step 3
  and marks step 2 completed.
\<close>

theorem completed_steps_below_current_step_witness:
  "reachable run3
   \<and> run3 7 = Some \<lparr>doc_id = 7, username = ''john'', first_name = ''John'', current_step = 3,
      steps_completed = [(1, True), (2, True)], bep20_address = None,
      social_usernames = [(''twitter'', Some ''john_crypto''), (''instagram'', None)],
      screenshots = [], created_at = 10, updated_at = 31\<rparr>
   \<and> map_of [(1, True), (2::int, True)] 2 = Some True
   \<and> (3::int) \<ge> 2 + 1"
proof -
  let ?r = "\<lparr>doc_id = 7, username = ''john'', first_name = ''John'', current_step = 3,
      steps_completed = [(1, True), (2, True)], bep20_address = None,
      social_usernames = [(''twitter'', Some ''john_crypto''), (''instagram'', None)],
      screenshots = [], created_at = 10, updated_at = 31\<rparr>"
  have a: "run3 7 = Some ?r" by (simp add: run3_eq)
  have b: "map_of (steps_completed ?r) 2 = Some True" by simp
  from completed_steps_below_current_step [of run3 7 ?r 2] reachable_runs(3) a b
  have "current_step ?r \<ge> 2 + 1" by blast
  with reachable_runs(3) a b show ?thesis by simp
qed

section \<open>Events off their step\<close>




section \<open>Creation\<close>

text \<open>
  Claim C5, as the code has it. The first \<open>create_user\<close> for an id stores a record with
  \<open>current_step\<close> 1, no completed step, no address, both social usernames unset and no
  screenshot, and returns \<open>True\<close>. A second \<open>create_user\<close> for the same id leaves the
  collection as it was and returns \<open>False\<close>: the insert raises on the duplicate key and
  the failure is reported. \<open>start\<close> looks the id up first and does not create a record
  for an id that has one; it leaves the collection as it was.
\<close>

theorem create_user_first_and_again:
  "(db uid = None \<longrightarrow>
      create_user db uid un fn t1 t2 =
        (db(uid \<mapsto> \<lparr>doc_id = uid, username = un, first_name = fn, current_step = 1,
             steps_completed = [], bep20_address = None,
             social_usernames = [(''twitter'', None), (''instagram'', None)],
             screenshots = [], created_at = t1, updated_at = t2\<rparr>), True))
   \<and> (db uid \<noteq> None \<longrightarrow> create_user db uid un fn t1 t2 = (db, False))
   \<and> (db uid \<noteq> None \<longrightarrow> fst (start db uid tu tf t1 t2) = db)"
  by (auto simp: create_user_def insert_one_def start_def get_user_def find_one_def Let_def
      fst_then_show website_missing)

text \<open>The theorem on the empty collection and on the collection that \<open>/start\<close> leaves.\<close>

theorem create_user_first_and_again_witness:
  "create_user (\<lambda>uid. None) 7 ''john'' ''John'' 10 11 = (run1, True)
   \<and> run1 7 \<noteq> None
   \<and> create_user run1 7 ''john'' ''John'' 60 61 = (run1, False)
   \<and> fst (start run1 7 (Some ''john'') (Some ''John'') 60 61) = run1"
proof -
  have n: "(\<lambda>uid. None :: user_doc option) 7 = None" by simp
  have e: "run1 7 \<noteq> None" by (simp add: run1_eq)
  from create_user_first_and_again [of "\<lambda>uid. None" 7 "''john''" "''John''" 10 11] n
  have 1: "create_user (\<lambda>uid. None) 7 ''john'' ''John'' 10 11 = (run1, True)"
    by (simp add: run1_eq)
  from create_user_first_and_again [of run1 7 "''john''" "''John''" 60 61 "Some ''john''" "Some ''John''"] e
  have 2: "create_user run1 7 ''john'' ''John'' 60 61 = (run1, False)"
    "fst (start run1 7 (Some ''john'') (Some ''John'') 60 61) = run1"
    by blast+
  from 1 e 2 show ?thesis by blast
qed

text \<open>
  The claim as worded fails on the second creation: the id has a record, and
  \<open>create_user\<close> reports failure, not success.
\<close>

theorem create_user_again_counterexample:
  "run1 7 \<noteq> None \<and> snd (create_user run1 7 ''john'' ''John'' 60 61) = False"
  by (simp add: run1_eq create_user_def insert_one_def)

section \<open>Reset\<close>

text \<open>
  Claim C6. For a record in any state, \<open>reset_command\<close> and the \<open>restart_process\<close>
  button leave it with \<open>current_step\<close> 1, no completed step, both social usernames
  unset and no address. The screenshots, the id, the user name, the first name and the
  creation time are as before (\<open>updated_at\<close> is the clock reading of the reset), and no
  other record changes.
\<close>

theorem reset_clears_progress:
  assumes "db uid = Some r"
  shows "fst (reset_command db uid t) =
           db(uid \<mapsto> r\<lparr>current_step := 1, steps_completed := [],
                         social_usernames := [(''twitter'', None), (''instagram'', None)],
                         bep20_address := None, updated_at := t\<rparr>)
       \<and> fst (button_handler db uid ''restart_process'' m t) =
           db(uid \<mapsto> r\<lparr>current_step := 1, steps_completed := [],
                         social_usernames := [(''twitter'', None), (''instagram'', None)],
                         bep20_address := None, updated_at := t\<rparr>)"
  using assms
  by (simp add: reset_command_def button_handler_def get_user_def find_one_def case_prod_beta
      fst_update_one reset_fields_def show_step_callback_ok Let_def)

text \<open>
  The theorem on the sample session with the address stored and one screenshot added:
  both resets clear the progress and keep the screenshot.
\<close>

theorem reset_clears_progress_witness:
  "fst (add_screenshot run6 7 ''AgACAgUAAx'' ''shot.png'' 65 66) 7 =
     Some \<lparr>doc_id = 7, username = ''john'', first_name = ''John'', current_step = 6,
       steps_completed = [(1, True), (2, True), (3, True), (4, True), (5, True)],
       bep20_address = Some ''0x742d35Cc6634C0532925a3b8D4B29E3f5fCffd52'',
       social_usernames = [(''twitter'', Some ''john_crypto''), (''instagram'', Some ''john.crypto'')],
       screenshots = [\<lparr>file_id = ''AgACAgUAAx'', file_name = ''shot.png'', uploaded_at = 65\<rparr>],
       created_at = 10, updated_at = 66\<rparr>
   \<and> fst (reset_command (fst (add_screenshot run6 7 ''AgACAgUAAx'' ''shot.png'' 65 66)) 7 70) 7 =
     Some \<lparr>doc_id = 7, username = ''john'', first_name = ''John'', current_step = 1,
       steps_completed = [], bep20_address = None,
       social_usernames = [(''twitter'', None), (''instagram'', None)],
       screenshots = [\<lparr>file_id = ''AgACAgUAAx'', file_name = ''shot.png'', uploaded_at = 65\<rparr>],
       created_at = 10, updated_at = 70\<rparr>
   \<and> fst (button_handler (fst (add_screenshot run6 7 ''AgACAgUAAx'' ''shot.png'' 65 66)) 7
          ''restart_process'' (Status MEMBER) 70) 7 =
     Some \<lparr>doc_id = 7, username = ''john'', first_name = ''John'', current_step = 1,
       steps_completed = [], bep20_address = None,
       social_usernames = [(''twitter'', None), (''instagram'', None)],
       screenshots = [\<lparr>file_id = ''AgACAgUAAx'', file_name = ''shot.png'', uploaded_at = 65\<rparr>],
       created_at = 10, updated_at = 70\<rparr>"
proof -
  let ?db = "fst (add_screenshot run6 7 ''AgACAgUAAx'' ''shot.png'' 65 66)"
  let ?r = "\<lparr>doc_id = 7, username = ''john'', first_name = ''John'', current_step = 6,
       steps_completed = [(1, True), (2, True), (3, True), (4, True), (5, True)],
       bep20_address = Some ''0x742d35Cc6634C0532925a3b8D4B29E3f5fCffd52'',
       social_usernames = [(''twitter'', Some ''john_crypto''), (''instagram'', Some ''john.crypto'')],
       screenshots = [\<lparr>file_id = ''AgACAgUAAx'', file_name = ''shot.png'', uploaded_at = 65\<rparr>],
       created_at = 10, updated_at = 66\<rparr>"
  have a: "?db 7 = Some ?r"
    by (simp add: run6_eq add_screenshot_def update_one_def Let_def)
  from reset_clears_progress [of ?db 7 ?r 70 "Status MEMBER"] a
  have "fst (reset_command ?db 7 70) 7 = Some (?r\<lparr>current_step := 1, steps_completed := [],
                         social_usernames := [(''twitter'', None), (''instagram'', None)],
                         bep20_address := None, updated_at := 70\<rparr>)"
    "fst (button_handler ?db 7 ''restart_process'' (Status MEMBER) 70) 7 =
        Some (?r\<lparr>current_step := 1, steps_completed := [],
                         social_usernames := [(''twitter'', None), (''instagram'', None)],
                         bep20_address := None, updated_at := 70\<rparr>)"
    by simp_all
  with a show ?thesis by simp
qed

section \<open>The membership check fails closed\<close>

text \<open>
  Claim C8. On step 4 the \<open>verify_telegram\<close> button advances the record to step 5 only
  when the membership query answers member, administrator or owner. Every other answer,
  and every exception of the query (the channel unreachable among them), gives the same
  outcome: the collection is left as it was, \<open>current_step\<close> stays 4, and the user gets
  the failure message and the prompt of step 4 again.
\<close>

theorem verify_telegram_fails_closed:
  assumes "db uid = Some r" and "current_step r = 4"
  shows "(check_channel_membership m \<longrightarrow>
            button_handler db uid ''verify_telegram'' m t =
              (db(uid \<mapsto> r\<lparr>current_step := 5,
                              steps_completed := AList.update 4 True (steps_completed r),
                              updated_at := t\<rparr>),
               [VerifyingMembership, MembershipVerified, StepPrompt 5], None))
       \<and> (\<not> check_channel_membership m \<longrightarrow>
            button_handler db uid ''verify_telegram'' m t =
              (db, [VerifyingMembership, VerificationFailed, StepPrompt 4], None))
       \<and> (check_channel_membership m \<longleftrightarrow>
            m = Status MEMBER \<or> m = Status ADMINISTRATOR \<or> m = Status OWNER)
       \<and> button_handler db uid ''verify_telegram'' (Raises e) t =
            button_handler db uid ''verify_telegram'' (Status LEFT) t"
proof -
  have mem: "check_channel_membership m \<longleftrightarrow>
      m = Status MEMBER \<or> m = Status ADMINISTRATOR \<or> m = Status OWNER"
    by (cases m rule: check_channel_membership.cases) auto
  have raises: "\<not> check_channel_membership (Raises e)"
    by (cases e) simp_all
  have left: "\<not> check_channel_membership (Status LEFT)" by simp
  have no: "\<not> check_channel_membership x \<Longrightarrow>
      button_handler db uid ''verify_telegram'' x t =
        (db, [VerifyingMembership, VerificationFailed, StepPrompt 4], None)" for x
    using assms
    by (simp add: button_handler_def get_user_def find_one_def show_step_callback_ok then_show_def)
  have yes: "check_channel_membership m \<Longrightarrow>
      button_handler db uid ''verify_telegram'' m t =
        (db(uid \<mapsto> r\<lparr>current_step := 5,
                        steps_completed := AList.update 4 True (steps_completed r),
                        updated_at := t\<rparr>),
         [VerifyingMembership, MembershipVerified, StepPrompt 5], None)"
    using assms
    by (simp add: button_handler_def get_user_def find_one_def show_step_callback_ok then_show_def
        fst_update_user_step)
  from mem yes no [of m] no [OF raises] no [OF left] show ?thesis by simp
qed

text \<open>
  The theorem on the sample session at step 4: a member advances to step 5, an
  unreachable channel leaves the record where it is.
\<close>

theorem verify_telegram_fails_closed_witness:
  "map_option current_step (run4 7) = Some 4
   \<and> check_channel_membership (Status MEMBER)
   \<and> button_handler run4 7 ''verify_telegram'' (Status MEMBER) 50 =
       (run5, [VerifyingMembership, MembershipVerified, StepPrompt 5], None)
   \<and> map_option current_step (run5 7) = Some 5
   \<and> \<not> check_channel_membership (Raises OtherException)
   \<and> button_handler run4 7 ''verify_telegram'' (Raises OtherException) 50 =
       (run4, [VerifyingMembership, VerificationFailed, StepPrompt 4], None)"
proof -
  let ?r4 = "\<lparr>doc_id = 7, username = ''john'', first_name = ''John'', current_step = 4,
      steps_completed = [(1, True), (2, True), (3, True)], bep20_address = None,
      social_usernames = [(''twitter'', Some ''john_crypto''), (''instagram'', Some ''john.crypto'')],
      screenshots = [], created_at = 10, updated_at = 41\<rparr>"
  have a: "run4 7 = Some ?r4" and b: "current_step ?r4 = 4" by (simp_all add: run4_eq)
  have m: "check_channel_membership (Status MEMBER)"
    "\<not> check_channel_membership (Raises OtherException)" by simp_all
  from verify_telegram_fails_closed [of run4 7 ?r4 "Status MEMBER" 50] a b m
  have 1: "button_handler run4 7 ''verify_telegram'' (Status MEMBER) 50 =
       (run5, [VerifyingMembership, MembershipVerified, StepPrompt 5], None)"
    by (simp add: run4_eq run5_eq)
  from verify_telegram_fails_closed [of run4 7 ?r4 "Raises OtherException" 50] a b m
  have 2: "button_handler run4 7 ''verify_telegram'' (Raises OtherException) 50 =
       (run4, [VerifyingMembership, VerificationFailed, StepPrompt 4], None)"
    by blast
  from 1 2 m show ?thesis by (simp add: run4_eq run5_eq)
qed

end
